theory Spec2Isabelle
  imports Main "HOL-Library.Word"
begin

section \<open>Python strings as the tunnel script uses them\<close>

text \<open>
  The output of the external \<^verbatim>\<open>find\<close> command is read with \<^verbatim>\<open>text=True\<close>, so it is a
  \<^verbatim>\<open>str\<close>. A character of the model is a code point below 256. \<^verbatim>\<open>str.strip()\<close> removes
  leading and trailing white space; for code points below 256 Python's white space is
  U+0009..U+000D, U+001C..U+001F, U+0020, U+0085 and U+00A0.
\<close>

definition py_isspace :: "char \<Rightarrow> bool" where
  "py_isspace c = (of_char c \<in> {9, 10, 11, 12, 13, 28, 29, 30, 31, 32, 133, 160 :: nat})"

definition py_strip :: "string \<Rightarrow> string" where
  "py_strip s = rev (dropWhile py_isspace (rev (dropWhile py_isspace s)))"

text \<open>
  \<^verbatim>\<open>s.split(sep)\<close> for a one-character separator: the scanner cuts at every separator
  and always returns the piece it is holding at the end, so the result is never empty.
\<close>

fun py_split :: "char \<Rightarrow> string \<Rightarrow> string \<Rightarrow> string list" where
  "py_split sep cur [] = [cur]"
| "py_split sep cur (c # cs) =
     (if c = sep then cur # py_split sep [] cs else py_split sep (cur @ [c]) cs)"

definition newline :: char where
  "newline = CHR 0x0A"

text \<open>\<^verbatim>\<open>result.stdout.strip().split("\n")\<close>, the expression both polling loops use.\<close>

definition stdout_files :: "string \<Rightarrow> string list" where
  "stdout_files out = py_split newline [] (py_strip out)"

text \<open>Decimal formatting of an \<^verbatim>\<open>int\<close> inside an f-string.\<close>

definition digit_char :: "nat \<Rightarrow> char" where
  "digit_char d = ''0123456789'' ! d"

fun str_nat :: "nat \<Rightarrow> string" where
  "str_nat n = (if n < 10 then [digit_char n] else str_nat (n div 10) @ [digit_char (n mod 10)])"

declare str_nat.simps [simp del]

definition str_int :: "int \<Rightarrow> string" where
  "str_int i = (if i < 0 then CHR ''-'' # str_nat (nat (- i)) else str_nat (nat i))"

section \<open>The external listing command\<close>

text \<open>
  \<^verbatim>\<open>subprocess.run(cmd, shell=True, capture_output=True, text=True)\<close> is called without
  \<^verbatim>\<open>check=True\<close>: a failing command does not raise, it returns a completed process
  with a non-zero return code, its message on \<^verbatim>\<open>stderr\<close> and whatever it printed on
  \<^verbatim>\<open>stdout\<close>. Both loops read \<^verbatim>\<open>stdout\<close> only.
\<close>

record completed_process =
  returncode :: int
  stdout :: string
  stderr :: string

section \<open>\<^verbatim>\<open>wait_for_broker_socket\<close>\<close>

text \<open>
  The loop polls the listing command. The model is given the results of the successive
  calls of \<^verbatim>\<open>subprocess.run\<close> and counts the one-second sleeps; \<open>None\<close> means the
  function is still waiting when the given results are used up.
\<close>

fun wait_for_broker_socket :: "completed_process list \<Rightarrow> nat \<Rightarrow> (bool \<times> nat) option" where
  "wait_for_broker_socket [] sleeps = None"
| "wait_for_broker_socket (result # results) sleeps =
     (let files = stdout_files (stdout result)
      in if length files = 0 then wait_for_broker_socket results (sleeps + 1)
         else Some (True, sleeps))"

text \<open>The entries a listing shows: its non-empty lines, as \<^verbatim>\<open>watch_msg_sockets\<close> reads them.\<close>

definition listed_entries :: "completed_process \<Rightarrow> string list" where
  "listed_entries result = filter (\<lambda>file. file \<noteq> []) (stdout_files (stdout result))"

section \<open>\<^verbatim>\<open>watch_msg_sockets\<close>\<close>

text \<open>
  The watcher owns the set \<^verbatim>\<open>sockets\<close> and the counter \<^verbatim>\<open>n_socket\<close>. One pass of its
  loop lists the directory, starts a thread for every new non-empty name and adds every
  listed name to the set. \<^verbatim>\<open>new_files\<close> is a Python set, whose iteration order is not
  specified: the model takes the order as a parameter \<open>iter\<close>, a function that lists
  the elements of a set (given as a list) once each, in some order.
\<close>

record watcher_state =
  sockets :: "string set"
  n_socket :: int

definition set_iteration :: "(string list \<Rightarrow> string list) \<Rightarrow> bool" where
  "set_iteration iter = (\<forall>xs. set (iter xs) = set xs \<and> distinct (iter xs))"

text \<open>
  The body of \<^verbatim>\<open>for file in new_files\<close>: the threads started, as pairs of the arguments
  of \<^verbatim>\<open>create_msg_tunnel\<close>, and the counter afterwards.
\<close>

fun start_tunnels :: "string list \<Rightarrow> int \<Rightarrow> (string \<times> int) list \<times> int" where
  "start_tunnels [] n = ([], n)"
| "start_tunnels (file # files) n =
     (if file = [] then start_tunnels files n
      else (let (started, n') = start_tunnels files (n + 1) in ((file, n) # started, n')))"

definition watch_pass ::
  "(string list \<Rightarrow> string list) \<Rightarrow> completed_process \<Rightarrow> watcher_state
     \<Rightarrow> (string \<times> int) list \<times> watcher_state" where
  "watch_pass iter result st =
     (let files = stdout_files (stdout result);
          new_files = iter (filter (\<lambda>file. file \<notin> sockets st) files);
          (started, n') = start_tunnels new_files (n_socket st)
      in (started, \<lparr>sockets = sockets st \<union> set files, n_socket = n'\<rparr>))"

text \<open>
  The loop never ends; the model runs it over the results of finitely many listings and
  returns the threads started so far and the watcher's state. A one-second sleep follows
  every pass.
\<close>

fun watch_msg_sockets ::
  "(string list \<Rightarrow> string list) \<Rightarrow> completed_process list \<Rightarrow> watcher_state
     \<Rightarrow> (string \<times> int) list \<times> watcher_state" where
  "watch_msg_sockets iter [] st = ([], st)"
| "watch_msg_sockets iter (result # results) st =
     (let (started, st') = watch_pass iter result st;
          (later, st'') = watch_msg_sockets iter results st'
      in (started @ later, st''))"


section \<open>Exceptions\<close>

text \<open>
  The exceptions the two modules meet. \<open>OSError\<close> stands for every \<^verbatim>\<open>OSError\<close> that is not
  a \<^verbatim>\<open>BlockingIOError\<close>; \<^verbatim>\<open>socket.error\<close> is an alias of \<^verbatim>\<open>OSError\<close>, of which
  \<^verbatim>\<open>BlockingIOError\<close> is a subclass. \<open>OtherException\<close> is any exception outside that
  family which a library call may raise.
\<close>

datatype py_exn =
    OSError
  | BlockingIOError
  | TypeError
  | AttributeError
  | UnboundLocalError
  | OtherException

definition is_socket_error :: "py_exn \<Rightarrow> bool" where
  "is_socket_error e = (e = OSError \<or> e = BlockingIOError)"

section \<open>\<^verbatim>\<open>UnixSocketTunneler\<close>\<close>

type_synonym byte = "8 word"
type_synonym bytes = "byte list"

record tunneler =
  client_socket_path :: string
  broker_socket_path :: string
  self_n_socket :: int

text \<open>
  A local variable of \<^verbatim>\<open>tunnel\<close> that holds a socket: not yet assigned, \<^verbatim>\<open>None\<close>, or a
  socket object (numbered in the order of creation).
\<close>

datatype local_var = Unbound | NoneValue | Socket nat

text \<open>What the worker does to the outside, in order.\<close>

datatype action =
    Connect nat string
  | Received nat bytes
  | Sent nat bytes
  | Close nat
  | Sleep nat

text \<open>
  One pass of the inner loop is driven by what the operating system answers: the result
  of \<^verbatim>\<open>select.select(rlist, wlist, [])\<close> and, for each call the pass makes, the result
  of \<^verbatim>\<open>recv(4096)\<close> or \<^verbatim>\<open>send(buffer)\<close>. \<open>SendAccepts n\<close> is \<^verbatim>\<open>send\<close> returning
  \<open>n\<close>: the transport took the first \<open>n\<close> bytes offered.
\<close>

datatype recv_result = RecvData bytes | RecvRaises py_exn

datatype send_result = SendAccepts nat | SendRaises py_exn

record event =
  select_raises :: "py_exn option"
  client_readable :: bool
  broker_readable :: bool
  broker_writable :: bool
  client_writable :: bool
  client_recv :: recv_result
  broker_recv :: recv_result
  broker_send :: send_result
  client_send :: send_result

record worker_state =
  client_sock :: local_var
  broker_sock :: local_var
  client_to_broker_buffer :: bytes
  broker_to_client_buffer :: bytes
  next_socket :: nat

datatype control = Next | Break | Raise py_exn

type_synonym step = "control \<times> worker_state \<times> action list"

definition and_then :: "step \<Rightarrow> (worker_state \<Rightarrow> step) \<Rightarrow> step" where
  "and_then s f =
     (case s of
        (Next, st, tr) \<Rightarrow> (case f st of (c, st', tr') \<Rightarrow> (c, st', tr @ tr'))
      | (Break, st, tr) \<Rightarrow> (Break, st, tr)
      | (Raise e, st, tr) \<Rightarrow> (Raise e, st, tr))"

text \<open>\<^verbatim>\<open>if client_sock in readable: ...\<close>\<close>

definition recv_from_client :: "nat \<Rightarrow> event \<Rightarrow> worker_state \<Rightarrow> step" where
  "recv_from_client c ev st =
     (if client_readable ev then
        (case client_recv ev of
           RecvData data \<Rightarrow>
             if data \<noteq> [] then
               (Next, st\<lparr>client_to_broker_buffer := client_to_broker_buffer st @ data\<rparr>,
                [Received c data])
             else (Break, st, [])
         | RecvRaises e \<Rightarrow>
             if e = BlockingIOError then (Next, st, []) else (Raise e, st, []))
      else (Next, st, []))"

text \<open>\<^verbatim>\<open>if broker_sock in readable: ...\<close>\<close>

definition recv_from_broker :: "nat \<Rightarrow> event \<Rightarrow> worker_state \<Rightarrow> step" where
  "recv_from_broker b ev st =
     (if broker_readable ev then
        (case broker_recv ev of
           RecvData data \<Rightarrow>
             if data \<noteq> [] then
               (Next, st\<lparr>broker_to_client_buffer := broker_to_client_buffer st @ data\<rparr>,
                [Received b data])
             else (Break, st, [])
         | RecvRaises e \<Rightarrow>
             if e = BlockingIOError then (Next, st, []) else (Raise e, st, []))
      else (Next, st, []))"

text \<open>\<^verbatim>\<open>if broker_sock in writable and client_to_broker_buffer: ...\<close>\<close>

definition send_to_broker :: "nat \<Rightarrow> bool \<Rightarrow> event \<Rightarrow> worker_state \<Rightarrow> step" where
  "send_to_broker b in_writable ev st =
     (if in_writable \<and> client_to_broker_buffer st \<noteq> [] then
        (case broker_send ev of
           SendAccepts sent \<Rightarrow>
             (Next, st\<lparr>client_to_broker_buffer := drop sent (client_to_broker_buffer st)\<rparr>,
              [Sent b (take sent (client_to_broker_buffer st))])
         | SendRaises e \<Rightarrow>
             if e = BlockingIOError then (Next, st, []) else (Raise e, st, []))
      else (Next, st, []))"

text \<open>\<^verbatim>\<open>if client_sock in writable and broker_to_client_buffer: ...\<close>\<close>

definition send_to_client :: "nat \<Rightarrow> bool \<Rightarrow> event \<Rightarrow> worker_state \<Rightarrow> step" where
  "send_to_client c in_writable ev st =
     (if in_writable \<and> broker_to_client_buffer st \<noteq> [] then
        (case client_send ev of
           SendAccepts sent \<Rightarrow>
             (Next, st\<lparr>broker_to_client_buffer := drop sent (broker_to_client_buffer st)\<rparr>,
              [Sent c (take sent (broker_to_client_buffer st))])
         | SendRaises e \<Rightarrow>
             if e = BlockingIOError then (Next, st, []) else (Raise e, st, []))
      else (Next, st, []))"

text \<open>
  One pass of the inner \<^verbatim>\<open>while True\<close>. The write list is built from the buffers as
  they are before the reads of the pass, and \<^verbatim>\<open>select\<close> reports as writable only
  sockets of the write list. An exception of \<^verbatim>\<open>select\<close> itself is outside the inner
  \<^verbatim>\<open>try\<close> blocks.
\<close>

definition relay_pass :: "nat \<Rightarrow> nat \<Rightarrow> event \<Rightarrow> worker_state \<Rightarrow> step" where
  "relay_pass c b ev st =
     (let broker_in_wlist = (client_to_broker_buffer st \<noteq> []);
          client_in_wlist = (broker_to_client_buffer st \<noteq> [])
      in case select_raises ev of
           Some e \<Rightarrow> (Raise e, st, [])
         | None \<Rightarrow>
             and_then
               (and_then
                  (and_then (recv_from_client c ev st) (recv_from_broker b ev))
                  (send_to_broker b (broker_in_wlist \<and> broker_writable ev) ev))
               (send_to_client c (client_in_wlist \<and> client_writable ev) ev))"

text \<open>
  The inner loop over the events of one session. It ends when a peer has closed
  (\<^verbatim>\<open>break\<close>) or an exception leaves it; when the events are used up the worker is still
  blocked in \<^verbatim>\<open>select\<close>.
\<close>

datatype relay_end = PeerClosed | Raised py_exn | StillRelaying

fun relay_loop :: "nat \<Rightarrow> nat \<Rightarrow> event list \<Rightarrow> worker_state
    \<Rightarrow> relay_end \<times> worker_state \<times> action list" where
  "relay_loop c b [] st = (StillRelaying, st, [])"
| "relay_loop c b (ev # evs) st =
     (case relay_pass c b ev st of
        (Next, st', tr) \<Rightarrow>
          (case relay_loop c b evs st' of (r, st'', tr') \<Rightarrow> (r, st'', tr @ tr'))
      | (Break, st', tr) \<Rightarrow> (PeerClosed, st', tr)
      | (Raise e, st', tr) \<Rightarrow> (Raised e, st', tr))"

text \<open>
  What one pass of the outer loop meets, besides the events of its session: whether
  creating either socket or connecting either side raises, and how the wait for the
  client's first data ends. \<open>WaitReturns r\<close> is \<^verbatim>\<open>select.select([client_sock], [], [])\<close>
  returning, \<open>r\<close> telling whether \<^verbatim>\<open>client_sock\<close> is in the list returned.
\<close>

datatype wait_result = WaitReturns bool | WaitRaises py_exn | WaitForever

record attempt_env =
  broker_socket_raises :: "py_exn option"
  client_socket_raises :: "py_exn option"
  client_connect_raises :: "py_exn option"
  client_wait :: wait_result
  broker_connect_raises :: "py_exn option"
  events :: "event list"

datatype 'a outcome = Returns 'a | Raises py_exn | Blocks

text \<open>
  \<^verbatim>\<open>__connect_to_client_socket_and_wait_for_data\<close>; \<open>fresh\<close> numbers the socket it
  creates. When \<^verbatim>\<open>client_sock\<close> is not in the list \<^verbatim>\<open>select\<close> returns, the function falls
  off its end and returns \<^verbatim>\<open>None\<close>.
\<close>

definition connect_to_client_socket_and_wait_for_data ::
  "tunneler \<Rightarrow> attempt_env \<Rightarrow> nat \<Rightarrow> local_var outcome \<times> action list" where
  "connect_to_client_socket_and_wait_for_data self env fresh =
     (case client_socket_raises env of
        Some e \<Rightarrow> (Raises e, [])
      | None \<Rightarrow>
          (case client_connect_raises env of
             Some e \<Rightarrow> (Raises e, [Connect fresh (client_socket_path self)])
           | None \<Rightarrow>
               (case client_wait env of
                  WaitForever \<Rightarrow> (Blocks, [Connect fresh (client_socket_path self)])
                | WaitRaises e \<Rightarrow> (Raises e, [Connect fresh (client_socket_path self)])
                | WaitReturns ready \<Rightarrow>
                    (Returns (if ready then Socket fresh else NoneValue),
                     [Connect fresh (client_socket_path self)]))))"

datatype phase = WaitingForClient | Relaying

datatype body_end = Completed | BodyRaises py_exn | BodyBlocks phase

text \<open>
  The body of the outer \<^verbatim>\<open>try\<close>. With \<^verbatim>\<open>client_sock\<close> holding \<^verbatim>\<open>None\<close> the first
  \<^verbatim>\<open>select\<close> of the inner loop is given \<^verbatim>\<open>None\<close> in its read list and raises
  \<^verbatim>\<open>TypeError\<close>. Socket objects are numbered as they are created: the broker socket of
  a pass takes the next number, the client socket the one after it.
\<close>

definition try_body ::
  "tunneler \<Rightarrow> attempt_env \<Rightarrow> worker_state \<Rightarrow> body_end \<times> worker_state \<times> action list" where
  "try_body self env st =
     (case broker_socket_raises env of
        Some e \<Rightarrow> (BodyRaises e, st, [])
      | None \<Rightarrow>
          (let b = next_socket st;
               st1 = st\<lparr>broker_sock := Socket b, next_socket := b + 2\<rparr>
           in case connect_to_client_socket_and_wait_for_data self env (b + 1) of
                (Raises e, tr) \<Rightarrow> (BodyRaises e, st1, tr)
              | (Blocks, tr) \<Rightarrow> (BodyBlocks WaitingForClient, st1, tr)
              | (Returns v, tr) \<Rightarrow>
                  (let st2 = st1\<lparr>client_sock := v\<rparr>;
                       path = ''/tmp/mqtt_msg_'' @ str_int (self_n_socket self) @ ''.sock''
                   in case broker_connect_raises env of
                        Some e \<Rightarrow> (BodyRaises e, st2, tr @ [Connect b path])
                      | None \<Rightarrow>
                          (case v of
                             Socket c \<Rightarrow>
                               (case relay_loop c b (events env) st2 of
                                  (PeerClosed, st3, tr') \<Rightarrow>
                                    (Completed, st3, tr @ [Connect b path] @ tr')
                                | (Raised e, st3, tr') \<Rightarrow>
                                    (BodyRaises e, st3, tr @ [Connect b path] @ tr')
                                | (StillRelaying, st3, tr') \<Rightarrow>
                                    (BodyBlocks Relaying, st3, tr @ [Connect b path] @ tr'))
                           | NoneValue \<Rightarrow> (BodyRaises TypeError, st2, tr @ [Connect b path])
                           | Unbound \<Rightarrow>
                               (BodyRaises UnboundLocalError, st2, tr @ [Connect b path])))))"

text \<open>
  The \<^verbatim>\<open>finally\<close> block: \<^verbatim>\<open>client_sock.close()\<close>, \<^verbatim>\<open>broker_sock.close()\<close>, both buffers
  emptied, \<^verbatim>\<open>time.sleep(1)\<close>. Reading a local variable that was never assigned raises
  \<^verbatim>\<open>UnboundLocalError\<close>, and \<^verbatim>\<open>None\<close> has no \<^verbatim>\<open>close\<close>; either leaves the block at once.
\<close>

definition finally_block :: "worker_state \<Rightarrow> py_exn option \<times> worker_state \<times> action list" where
  "finally_block st =
     (case client_sock st of
        Unbound \<Rightarrow> (Some UnboundLocalError, st, [])
      | NoneValue \<Rightarrow> (Some AttributeError, st, [])
      | Socket c \<Rightarrow>
          (case broker_sock st of
             Unbound \<Rightarrow> (Some UnboundLocalError, st, [Close c])
           | NoneValue \<Rightarrow> (Some AttributeError, st, [Close c])
           | Socket b \<Rightarrow>
               (None,
                st\<lparr>client_to_broker_buffer := [], broker_to_client_buffer := []\<rparr>,
                [Close c, Close b, Sleep 1])))"

text \<open>
  How the worker stands after some passes of the outer loop: back at the top of the
  loop, blocked inside a pass, or dead because an exception left \<^verbatim>\<open>tunnel\<close>.
\<close>

datatype tunnel_status = Looping | Blocked phase | Died py_exn

text \<open>
  One pass of the outer \<^verbatim>\<open>while True\<close>: the \<^verbatim>\<open>try\<close> body, \<^verbatim>\<open>except socket.error\<close>, the
  \<^verbatim>\<open>finally\<close> block. An exception raised inside \<^verbatim>\<open>finally\<close> replaces the one in flight
  and leaves the function; an exception that \<^verbatim>\<open>except socket.error\<close> does not match
  leaves it after \<^verbatim>\<open>finally\<close> has run.
\<close>

definition attempt ::
  "tunneler \<Rightarrow> attempt_env \<Rightarrow> worker_state \<Rightarrow> tunnel_status \<times> worker_state \<times> action list" where
  "attempt self env st =
     (case try_body self env st of
        (BodyBlocks ph, st', tr) \<Rightarrow> (Blocked ph, st', tr)
      | (Completed, st', tr) \<Rightarrow>
          (case finally_block st' of
             (Some e', st'', tr') \<Rightarrow> (Died e', st'', tr @ tr')
           | (None, st'', tr') \<Rightarrow> (Looping, st'', tr @ tr'))
      | (BodyRaises e, st', tr) \<Rightarrow>
          (case finally_block st' of
             (Some e', st'', tr') \<Rightarrow> (Died e', st'', tr @ tr')
           | (None, st'', tr') \<Rightarrow>
               (if is_socket_error e then Looping else Died e, st'', tr @ tr')))"

fun tunnel_loop ::
  "tunneler \<Rightarrow> attempt_env list \<Rightarrow> worker_state
     \<Rightarrow> tunnel_status \<times> worker_state \<times> action list" where
  "tunnel_loop self [] st = (Looping, st, [])"
| "tunnel_loop self (env # envs) st =
     (case attempt self env st of
        (Looping, st', tr) \<Rightarrow>
          (case tunnel_loop self envs st' of (s, st'', tr') \<Rightarrow> (s, st'', tr @ tr'))
      | (Blocked ph, st', tr) \<Rightarrow> (Blocked ph, st', tr)
      | (Died e, st', tr) \<Rightarrow> (Died e, st', tr))"

text \<open>
  \<^verbatim>\<open>tunnel\<close> starts with both buffers empty and neither socket variable assigned. Its
  argument \<^verbatim>\<open>messaging_socket_path\<close> is used in log messages only.
\<close>

definition tunnel_init :: worker_state where
  "tunnel_init =
     \<lparr>client_sock = Unbound, broker_sock = Unbound,
      client_to_broker_buffer = [], broker_to_client_buffer = [], next_socket = 0\<rparr>"

definition tunnel ::
  "tunneler \<Rightarrow> string \<Rightarrow> attempt_env list \<Rightarrow> tunnel_status \<times> worker_state \<times> action list" where
  "tunnel self messaging_socket_path envs = tunnel_loop self envs tunnel_init"

text \<open>
  \<^verbatim>\<open>create_msg_tunnel\<close>, the target of the watcher's threads; \<open>BROKER_SOCKETS_PATH\<close> is the
  module's global, set from the command line.
\<close>

definition create_msg_tunnel ::
  "string \<Rightarrow> string \<Rightarrow> int \<Rightarrow> attempt_env list
     \<Rightarrow> tunnel_status \<times> worker_state \<times> action list" where
  "create_msg_tunnel BROKER_SOCKETS_PATH client_socket n envs =
     tunnel \<lparr>client_socket_path = client_socket, broker_socket_path = BROKER_SOCKETS_PATH,
             self_n_socket = n\<rparr> client_socket envs"

text \<open>The bytes a trace shows read from, and accepted by, a socket.\<close>

fun received_on :: "nat \<Rightarrow> action list \<Rightarrow> bytes" where
  "received_on s [] = []"
| "received_on s (Received s' data # tr) =
     (if s' = s then data @ received_on s tr else received_on s tr)"
| "received_on s (a # tr) = received_on s tr"


section \<open>\<^verbatim>\<open>MqttClient\<close>\<close>

datatype ConnectionType = UNIX_SOCKET | SERIAL_PORT | TCP_DEBUG

text \<open>A callback is a Python callable, known by its identity only.\<close>

type_synonym callback = nat

text \<open>
  The attributes an instance holds. \<^verbatim>\<open>__init__\<close> assigns \<^verbatim>\<open>mqtt_client\<close>, \<^verbatim>\<open>identifier\<close>,
  \<^verbatim>\<open>connection_type\<close> and \<^verbatim>\<open>connection_string\<close>; \<^verbatim>\<open>on_message\<close> and \<^verbatim>\<open>on_connected\<close> are
  \<^verbatim>\<open>None\<close> unless the user assigns them. \<^verbatim>\<open>connected\<close> and \<^verbatim>\<open>is_starting\<close> are class
  attributes with the value \<^verbatim>\<open>False\<close>; an assignment through \<^verbatim>\<open>self\<close> gives the instance
  an attribute of its own, which then hides the class's.
\<close>

record mqtt_instance =
  self_identifier :: string
  connection_type :: ConnectionType
  connection_string :: string
  on_message :: "callback option"
  on_connected :: "callback option"
  mqtt_client :: "nat option"
  own_connected :: "bool option"
  own_is_starting :: "bool option"

text \<open>
  The store: the list objects, the two class attributes \<^verbatim>\<open>__message_callbacks\<close> and
  \<^verbatim>\<open>__connected_callbacks\<close> of \<^verbatim>\<open>MqttClient\<close>, each a reference to a list object, and the
  instances.
\<close>

record py_store =
  list_objects :: "nat \<Rightarrow> callback list"
  cls_message_callbacks :: nat
  cls_connected_callbacks :: nat
  instances :: "nat \<Rightarrow> mqtt_instance"



definition connected :: "py_store \<Rightarrow> nat \<Rightarrow> bool" where
  "connected w self = (case own_connected (instances w self) of None \<Rightarrow> False | Some v \<Rightarrow> v)"

definition is_starting :: "py_store \<Rightarrow> nat \<Rightarrow> bool" where
  "is_starting w self =
     (case own_is_starting (instances w self) of None \<Rightarrow> False | Some v \<Rightarrow> v)"













text \<open>
  \<^verbatim>\<open>stop\<close> calls methods of the underlying client object. Such a call may raise and may
  change the store (the serial client's \<^verbatim>\<open>disconnect\<close> runs its loop, which can call
  back into \<^verbatim>\<open>MqttClient\<close>), so each method is a function on the store that also says
  whether it raised.
\<close>

type_synonym client_method = "nat \<Rightarrow> py_store \<Rightarrow> py_exn option \<times> py_store"

record client_methods =
  disconnect :: client_method
  loop_stop :: client_method
  close :: client_method

text \<open>\<^verbatim>\<open>self.mqtt_client.m()\<close>: the attribute is read again at every call.\<close>

definition call_mqtt_client ::
  "client_method \<Rightarrow> nat \<Rightarrow> py_store \<Rightarrow> py_exn option \<times> py_store" where
  "call_mqtt_client m self w =
     (case mqtt_client (instances w self) of
        None \<Rightarrow> (Some AttributeError, w)
      | Some client \<Rightarrow> m client w)"

text \<open>The \<^verbatim>\<open>try\<close> body of \<^verbatim>\<open>stop\<close> under its bare \<^verbatim>\<open>except: pass\<close>: the store it leaves.\<close>

definition stop_body :: "client_methods \<Rightarrow> nat \<Rightarrow> py_store \<Rightarrow> py_store" where
  "stop_body cm self w =
     (case call_mqtt_client (disconnect cm) self w of
        (Some e, w1) \<Rightarrow> w1
      | (None, w1) \<Rightarrow>
          (case call_mqtt_client (loop_stop cm) self w1 of
             (Some e, w2) \<Rightarrow> w2
           | (None, w2) \<Rightarrow>
               if connection_type (instances w2 self) = SERIAL_PORT
               then snd (call_mqtt_client (close cm) self w2)
               else w2))"

definition stop :: "client_methods \<Rightarrow> nat \<Rightarrow> py_store \<Rightarrow> py_store" where
  "stop cm self w =
     (if mqtt_client (instances w self) \<noteq> None then
        (let w' = stop_body cm self w
         in w'\<lparr>instances := (instances w')
                 (self := (instances w' self)\<lparr>own_connected := Some False,
                                              own_is_starting := Some False\<rparr>)\<rparr>)
      else w)"

section \<open>Notions used in the statements\<close>




text \<open>
  Inputs for the examples: an event in which \<^verbatim>\<open>select\<close> reports nothing and every call, were
  it made, would block; a pass of the outer loop in which every socket is created and
  connected and the client is reported readable; a tunneler for slot 3.
\<close>

definition quiet :: event where
  "quiet =
     \<lparr>select_raises = None, client_readable = False, broker_readable = False,
      broker_writable = False, client_writable = False,
      client_recv = RecvRaises BlockingIOError, broker_recv = RecvRaises BlockingIOError,
      broker_send = SendRaises BlockingIOError, client_send = SendRaises BlockingIOError\<rparr>"

definition ready_attempt :: attempt_env where
  "ready_attempt =
     \<lparr>broker_socket_raises = None, client_socket_raises = None, client_connect_raises = None,
      client_wait = WaitReturns True, broker_connect_raises = None, events = []\<rparr>"

definition example_tunneler :: tunneler where
  "example_tunneler =
     \<lparr>client_socket_path = ''/tmp/app.sock'', broker_socket_path = ''/var/run'', self_n_socket = 3\<rparr>"



text \<open>
  Inputs for the examples: a store with two instances, the first started and connected,
  the second never started; a client object whose \<^verbatim>\<open>disconnect\<close> and \<^verbatim>\<open>close\<close> raise; an
  environment whose callbacks never raise and whose decoder rejects the empty payload.
\<close>

definition example_store :: py_store where
  "example_store =
     \<lparr>list_objects = (\<lambda>r. []), cls_message_callbacks = 0, cls_connected_callbacks = 1,
      instances = (\<lambda>i.
        \<lparr>self_identifier = ''app'', connection_type = SERIAL_PORT, connection_string = ''/dev/ttyS0'',
         on_message = None, on_connected = None,
         mqtt_client = (if i = 0 then Some 7 else None),
         own_connected = (if i = 0 then Some True else None),
         own_is_starting = None\<rparr>)\<rparr>"

definition failing_client :: client_methods where
  "failing_client =
     \<lparr>disconnect = (\<lambda>client w. (Some OSError, w)),
      loop_stop = (\<lambda>client w. (None, w)),
      close = (\<lambda>client w. (Some OtherException, w))\<rparr>"


section \<open>Properties\<close>

lemma py_split_not_Nil: "py_split sep cur s \<noteq> []"
  by (induction s arbitrary: cur) auto

lemma stdout_files_not_Nil: "stdout_files out \<noteq> []"
  by (simp add: stdout_files_def py_split_not_Nil)

lemma wait_for_broker_socket_first_poll:
  "wait_for_broker_socket (result # results) sleeps = Some (True, sleeps)"
  by (simp add: stdout_files_not_Nil Let_def)

lemma start_tunnels_names:
  "map fst (fst (start_tunnels files n)) = filter (\<lambda>f. f \<noteq> []) files"
  by (induction files arbitrary: n) (simp_all add: split_beta)

lemma start_tunnels_counter:
  "snd (start_tunnels files n) = n + int (length (fst (start_tunnels files n)))"
  by (induction files arbitrary: n) (simp_all add: split_beta)



lemma fst_watch_pass:
  "fst (watch_pass iter result st) =
     fst (start_tunnels (iter (filter (\<lambda>f. f \<notin> sockets st) (stdout_files (stdout result))))
            (n_socket st))"
  by (simp add: watch_pass_def Let_def split_beta)

lemma snd_watch_pass:
  "snd (watch_pass iter result st) =
     \<lparr>sockets = sockets st \<union> set (stdout_files (stdout result)),
      n_socket = n_socket st + int (length (fst (watch_pass iter result st)))\<rparr>"
  using start_tunnels_counter by (simp add: watch_pass_def Let_def split_beta)

lemma watch_pass_names:
  assumes "set_iteration iter"
  shows "set (map fst (fst (watch_pass iter result st))) = set (listed_entries result) - sockets st"
  using assms
  by (auto simp: fst_watch_pass listed_entries_def set_iteration_def start_tunnels_names)

lemma watch_pass_distinct:
  assumes "set_iteration iter"
  shows "distinct (map fst (fst (watch_pass iter result st)))"
  using assms
  by (simp add: fst_watch_pass set_iteration_def start_tunnels_names)


lemma listed_entries_subset: "set (listed_entries result) \<subseteq> set (stdout_files (stdout result))"
  by (auto simp: listed_entries_def)

lemma watch_run_names:
  assumes "set_iteration iter"
  shows "set (map fst (fst (watch_msg_sockets iter results st))) =
           (\<Union>r \<in> set results. set (listed_entries r)) - sockets st
         \<and> distinct (map fst (fst (watch_msg_sockets iter results st)))"
proof (induction results arbitrary: st)
  case Nil
  then show ?case by simp
next
  case (Cons r rs)
  define st' where "st' = snd (watch_pass iter r st)"
  define first where "first = map fst (fst (watch_pass iter r st))"
  define later where "later = map fst (fst (watch_msg_sockets iter rs st'))"
  have unfold: "map fst (fst (watch_msg_sockets iter (r # rs) st)) = first @ later"
    by (simp add: split_beta first_def later_def st'_def)
  have first_set: "set first = set (listed_entries r) - sockets st"
    and first_dist: "distinct first"
    using watch_pass_names [OF assms] watch_pass_distinct [OF assms] by (simp_all add: first_def)
  have later_set: "set later = (\<Union>r \<in> set rs. set (listed_entries r)) - sockets st'"
    and later_dist: "distinct later"
    using Cons.IH [of st'] by (simp_all add: later_def)
  have socks: "sockets st' = sockets st \<union> set (stdout_files (stdout r))"
    by (simp add: st'_def snd_watch_pass)
  have disj: "set first \<inter> set later = {}"
    using first_set later_set socks listed_entries_subset [of r] by auto
  have "set (first @ later) = (\<Union>r \<in> set (r # rs). set (listed_entries r)) - sockets st"
  proof -
    have "\<And>x. x \<in> set (listed_entries r) \<or> x \<notin> set (stdout_files (stdout r)) \<or> x = []"
      by (auto simp: listed_entries_def)
    moreover have "\<And>x r'. x \<in> set (listed_entries r') \<Longrightarrow> x \<noteq> []"
      by (auto simp: listed_entries_def)
    ultimately show ?thesis
      using first_set later_set socks by auto
  qed
  then show ?case using unfold first_dist later_dist disj by simp
qed

text \<open>
  Claim C3. The claim: \<^verbatim>\<open>wait_for_broker_socket\<close> returns \<^verbatim>\<open>True\<close> only after the listing has shown
  at least one broker socket entry, sleeping one second between polls. The code: with an
  empty \<^verbatim>\<open>stdout\<close> (here the listing failed) \<^verbatim>\<open>"".split("\n")\<close> is \<^verbatim>\<open>[""]\<close>, of length 1, so
  the test \<^verbatim>\<open>len(files) == 0\<close> fails and the function returns \<^verbatim>\<open>True\<close> at the first poll
  without having slept, although the listing shows no entry.
\<close>

theorem wait_for_broker_socket_returns_without_entry:
  "listed_entries \<lparr>returncode = 1, stdout = [], stderr = ''find: No such file or directory''\<rparr> = []
   \<and> wait_for_broker_socket
        [\<lparr>returncode = 1, stdout = [], stderr = ''find: No such file or directory''\<rparr>] 0
       = Some (True, 0)"
  by (simp add: listed_entries_def stdout_files_def py_strip_def)



text \<open>
  Claim C8. A listing that prints nothing but white space on \<^verbatim>\<open>stdout\<close> (the directory is
  missing or unreadable, or the command found nothing), whatever its return code and
  \<^verbatim>\<open>stderr\<close>, is handled as the empty output is: no thread is started, the counter keeps
  its value, the only change is that the empty name enters \<^verbatim>\<open>sockets\<close>, and the loop goes
  on to the next listings, which start threads for the same names as they would have
  without the failed poll.
\<close>

theorem listing_failure_is_empty_result:
  assumes "set_iteration iter" and "py_strip (stdout result) = []"
  shows "watch_pass iter result st = ([], st\<lparr>sockets := insert [] (sockets st)\<rparr>)
    \<and> watch_pass iter result st = watch_pass iter \<lparr>returncode = 0, stdout = [], stderr = []\<rparr> st
    \<and> watch_msg_sockets iter (result # later) st =
        watch_msg_sockets iter later (st\<lparr>sockets := insert [] (sockets st)\<rparr>)
    \<and> set (map fst (fst (watch_msg_sockets iter (result # later) st))) =
        set (map fst (fst (watch_msg_sockets iter later st)))
    \<and> n_socket (snd (watch_pass iter result st)) = n_socket st"
proof -
  have files: "stdout_files (stdout result) = [[]]"
    using assms(2) by (simp add: stdout_files_def)
  have files0: "stdout_files [] = [[]]"
    by (simp add: stdout_files_def py_strip_def)
  have start: "\<And>xs. fst (start_tunnels (iter (filter (\<lambda>f. f \<notin> sockets st) [[]])) (n_socket st)) = []"
  proof -
    fix xs :: "string list"
    have "map fst (fst (start_tunnels (iter (filter (\<lambda>f. f \<notin> sockets st) [[]])) (n_socket st))) = []"
      unfolding start_tunnels_names using assms(1)
      by (auto simp: set_iteration_def filter_empty_conv)
    then show "fst (start_tunnels (iter (filter (\<lambda>f. f \<notin> sockets st) [[]])) (n_socket st)) = []"
      by simp
  qed
  have pass: "watch_pass iter result st = ([], st\<lparr>sockets := insert [] (sockets st)\<rparr>)"
  proof (rule prod_eqI)
    show "fst (watch_pass iter result st) = fst ([], st\<lparr>sockets := insert [] (sockets st)\<rparr>)"
      using start by (simp add: fst_watch_pass files)
    then show "snd (watch_pass iter result st) = snd ([], st\<lparr>sockets := insert [] (sockets st)\<rparr>)"
      by (simp add: snd_watch_pass files)
  qed
  have pass0: "watch_pass iter \<lparr>returncode = 0, stdout = [], stderr = []\<rparr> st =
      ([], st\<lparr>sockets := insert [] (sockets st)\<rparr>)"
  proof (rule prod_eqI)
    show "fst (watch_pass iter \<lparr>returncode = 0, stdout = [], stderr = []\<rparr> st) =
        fst ([], st\<lparr>sockets := insert [] (sockets st)\<rparr>)"
      using start by (simp add: fst_watch_pass files0)
    then show "snd (watch_pass iter \<lparr>returncode = 0, stdout = [], stderr = []\<rparr> st) =
        snd ([], st\<lparr>sockets := insert [] (sockets st)\<rparr>)"
      by (simp add: snd_watch_pass files0)
  qed
  have run: "watch_msg_sockets iter (result # later) st =
        watch_msg_sockets iter later (st\<lparr>sockets := insert [] (sockets st)\<rparr>)"
    by (simp add: pass split_beta)
  have entries: "\<And>x r. x \<in> set (listed_entries r) \<Longrightarrow> x \<noteq> []"
    by (auto simp: listed_entries_def)
  have same: "set (map fst (fst (watch_msg_sockets iter (result # later) st))) =
        set (map fst (fst (watch_msg_sockets iter later st)))"
    unfolding run
    using watch_run_names [OF assms(1), of later st]
      watch_run_names [OF assms(1), of later "st\<lparr>sockets := insert [] (sockets st)\<rparr>"] entries
    by auto
  show ?thesis using pass pass0 run same by simp
qed

text \<open>
  Claim C8 at a listing that failed with return code 1 and printed a newline only.
\<close>

theorem listing_failure_is_empty_result_witness:
  "set_iteration remdups
   \<and> py_strip (stdout \<lparr>returncode = 1, stdout = [newline], stderr = ''find: Permission denied''\<rparr>) = []
   \<and> watch_pass remdups \<lparr>returncode = 1, stdout = [newline], stderr = ''find: Permission denied''\<rparr>
        \<lparr>sockets = {''/tmp/a''}, n_socket = 2\<rparr>
       = ([], \<lparr>sockets = {[], ''/tmp/a''}, n_socket = 2\<rparr>)"
proof -
  let ?r = "\<lparr>returncode = 1, stdout = [newline], stderr = ''find: Permission denied''\<rparr>"
  have h: "set_iteration remdups"
    by (simp add: set_iteration_def)
  have e: "py_strip (stdout ?r) = []"
    by (simp add: py_strip_def py_isspace_def newline_def)
  have "watch_pass remdups ?r \<lparr>sockets = {''/tmp/a''}, n_socket = 2\<rparr> =
      ([], \<lparr>sockets = {''/tmp/a''}, n_socket = 2\<rparr>\<lparr>sockets := insert [] (sockets \<lparr>sockets = {''/tmp/a''}, n_socket = 2\<rparr>)\<rparr>)"
    using listing_failure_is_empty_result [OF h e, of "\<lparr>sockets = {''/tmp/a''}, n_socket = 2\<rparr>" "[]"]
    by blast
  then have pass: "watch_pass remdups ?r \<lparr>sockets = {''/tmp/a''}, n_socket = 2\<rparr> =
      ([], \<lparr>sockets = {[], ''/tmp/a''}, n_socket = 2\<rparr>)"
    by simp
  show ?thesis
    using h e pass by blast
qed
















lemmas relay_defs =
  relay_pass_def and_then_def recv_from_client_def recv_from_broker_def
  send_to_broker_def send_to_client_def

lemmas worker_defs =
  tunnel_def tunnel_init_def attempt_def try_body_def finally_block_def
  connect_to_client_socket_and_wait_for_data_def is_socket_error_def
  str_int_def str_nat.simps digit_char_def

lemmas example_defs = quiet_def ready_attempt_def example_tunneler_def


text \<open>
  Claim C2. The claim: no exception of a session attempt ends the worker, a failure to
  connect on the first pass included. The code: when the connection to the client socket
  fails on the first pass of the outer loop, \<^verbatim>\<open>client_sock\<close> has never been assigned;
  \<^verbatim>\<open>except socket.error\<close> handles the error, then \<^verbatim>\<open>client_sock.close()\<close> in the \<^verbatim>\<open>finally\<close>
  block raises \<^verbatim>\<open>UnboundLocalError\<close>, which leaves \<^verbatim>\<open>tunnel\<close>: the worker is dead, without
  having closed the broker socket or slept.
\<close>

theorem worker_dies_on_first_client_connect_failure:
  "tunnel example_tunneler ''/tmp/app.sock''
     [ready_attempt\<lparr>client_connect_raises := Some OSError\<rparr>]
   = (Died UnboundLocalError,
      \<lparr>client_sock = Unbound, broker_sock = Socket 0,
       client_to_broker_buffer = [], broker_to_client_buffer = [], next_socket = 2\<rparr>,
      [Connect 1 ''/tmp/app.sock''])"
  by (simp add: worker_defs relay_defs example_defs)

text \<open>
  Claim C7. The claim: the worker does not go on to the broker before the remote side has
  sent at least one byte. The code waits until \<^verbatim>\<open>select\<close> reports the client socket
  readable, which is also the case when the remote side has closed: here the first read
  of the session is of length zero, so the remote side sent nothing, and the worker has
  connected to the broker all the same.
\<close>

theorem session_goes_live_without_a_byte:
  "tunnel example_tunneler ''/tmp/app.sock''
     [ready_attempt\<lparr>events :=
        [quiet\<lparr>client_readable := True, client_recv := RecvData []\<rparr>]\<rparr>]
   = (Looping,
      \<lparr>client_sock = Socket 1, broker_sock = Socket 0,
       client_to_broker_buffer = [], broker_to_client_buffer = [], next_socket = 2\<rparr>,
      [Connect 1 ''/tmp/app.sock'', Connect 0 ''/tmp/mqtt_msg_3.sock'',
       Close 1, Close 0, Sleep 1])
   \<and> received_on 1
        [Connect 1 ''/tmp/app.sock'', Connect 0 ''/tmp/mqtt_msg_3.sock'',
         Close 1, Close 0, Sleep 1] = []"
  by (simp add: worker_defs relay_defs example_defs)


lemma and_then_cases:
  obtains (stopped) "and_then s f = s"
  | (went_on) "and_then s f =
      (fst (f (fst (snd s))), fst (snd (f (fst (snd s)))),
       snd (snd s) @ snd (snd (f (fst (snd s)))))"
proof -
  obtain ctl st tr where s: "s = (ctl, st, tr)" by (cases s) auto
  show ?thesis
  proof (cases ctl)
    case Next
    then have "and_then s f =
      (fst (f (fst (snd s))), fst (snd (f (fst (snd s)))),
       snd (snd s) @ snd (snd (f (fst (snd s)))))"
      using s by (simp add: and_then_def split_beta)
    then show ?thesis by (rule went_on)
  next
    case Break
    then have "and_then s f = s" using s by (simp add: and_then_def)
    then show ?thesis by (rule stopped)
  next
    case (Raise e)
    then have "and_then s f = s" using s by (simp add: and_then_def)
    then show ?thesis by (rule stopped)
  qed
qed









lemma and_then_no_connect:
  assumes "Connect s p \<notin> set (snd (snd x))"
    and "\<And>st1. Connect s p \<notin> set (snd (snd (f st1)))"
  shows "Connect s p \<notin> set (snd (snd (and_then x f)))"
proof (cases rule: and_then_cases [where s = x and f = f])
  case stopped
  then show ?thesis using assms(1) by simp
next
  case went_on
  then show ?thesis
    using assms(1) assms(2) [of "fst (snd x)"] by simp
qed

lemma recv_from_client_no_connect: "Connect s p \<notin> set (snd (snd (recv_from_client c ev st)))"
  by (simp add: recv_from_client_def split: recv_result.splits)

lemma recv_from_broker_no_connect: "Connect s p \<notin> set (snd (snd (recv_from_broker b ev st)))"
  by (simp add: recv_from_broker_def split: recv_result.splits)

lemma send_to_broker_no_connect: "Connect s p \<notin> set (snd (snd (send_to_broker b w ev st)))"
  by (simp add: send_to_broker_def split: send_result.splits)

lemma send_to_client_no_connect: "Connect s p \<notin> set (snd (snd (send_to_client c w ev st)))"
  by (simp add: send_to_client_def split: send_result.splits)

lemma relay_pass_no_connect: "Connect s p \<notin> set (snd (snd (relay_pass c b ev st)))"
proof (cases "select_raises ev")
  case (Some e)
  then show ?thesis by (simp add: relay_pass_def)
next
  case None
  then show ?thesis
    by (simp add: relay_pass_def and_then_no_connect recv_from_client_no_connect
        recv_from_broker_no_connect send_to_broker_no_connect send_to_client_no_connect)
qed

lemma relay_loop_no_connect: "Connect s p \<notin> set (snd (snd (relay_loop c b evs st)))"
proof (induction evs arbitrary: st)
  case Nil
  then show ?case by simp
next
  case (Cons ev evs)
  obtain ctl st1 tr1 where p: "relay_pass c b ev st = (ctl, st1, tr1)"
    by (cases "relay_pass c b ev st") auto
  have k: "Connect s p \<notin> set tr1"
    using relay_pass_no_connect [of s p c b ev st] p by simp
  show ?case
    using p k Cons.IH [of st1] by (cases ctl) (simp_all add: split_beta)
qed











lemma connect_to_client_ignores_broker_socket_path:
  "connect_to_client_socket_and_wait_for_data (self\<lparr>broker_socket_path := d\<rparr>) env fresh =
     connect_to_client_socket_and_wait_for_data self env fresh"
  by (simp add: connect_to_client_socket_and_wait_for_data_def
      split: option.splits wait_result.splits)

lemma try_body_ignores_broker_socket_path:
  "try_body (self\<lparr>broker_socket_path := d\<rparr>) env st = try_body self env st"
  by (simp add: try_body_def connect_to_client_ignores_broker_socket_path Let_def
      split: option.splits prod.splits outcome.splits local_var.splits relay_end.splits)

lemma attempt_ignores_broker_socket_path:
  "attempt (self\<lparr>broker_socket_path := d\<rparr>) env st = attempt self env st"
  by (simp add: attempt_def try_body_ignores_broker_socket_path)

lemma tunnel_loop_ignores_broker_socket_path:
  "tunnel_loop (self\<lparr>broker_socket_path := d\<rparr>) envs st = tunnel_loop self envs st"
  by (induction envs arbitrary: st)
    (simp_all add: attempt_ignores_broker_socket_path split: prod.splits tunnel_status.splits)

lemma relay_loop_trace_no_connect:
  "relay_loop c b evs st = (r, st', tr) \<Longrightarrow> Connect s p \<notin> set tr"
  using relay_loop_no_connect [of s p c b evs st] by simp

lemma try_body_connects:
  assumes "Connect s p \<in> set (snd (snd (try_body self env st)))"
  shows "s = next_socket st + 1 \<and> p = client_socket_path self
    \<or> s = next_socket st
      \<and> p = ''/tmp/mqtt_msg_'' @ str_int (self_n_socket self) @ ''.sock''"
  using assms
  by (auto simp: try_body_def connect_to_client_socket_and_wait_for_data_def Let_def
      dest: relay_loop_trace_no_connect
      split: option.splits wait_result.splits local_var.splits if_splits relay_end.splits
        prod.splits)

lemma finally_block_no_connect: "Connect s p \<notin> set (snd (snd (finally_block st)))"
  by (simp add: finally_block_def split: local_var.splits)

lemma attempt_connects:
  assumes "Connect s p \<in> set (snd (snd (attempt self env st)))"
  shows "s = next_socket st + 1 \<and> p = client_socket_path self
    \<or> s = next_socket st
      \<and> p = ''/tmp/mqtt_msg_'' @ str_int (self_n_socket self) @ ''.sock''"
proof -
  obtain e st' tr where b: "try_body self env st = (e, st', tr)"
    by (cases "try_body self env st") auto
  obtain x st'' tr' where f: "finally_block st' = (x, st'', tr')"
    by (cases "finally_block st'") auto
  have nf: "Connect s p \<notin> set tr'"
    using finally_block_no_connect [of s p st'] f by simp
  have "snd (snd (attempt self env st)) = tr \<or> snd (snd (attempt self env st)) = tr @ tr'"
    using b f by (cases e; cases x) (simp_all add: attempt_def)
  then have "Connect s p \<in> set tr" using assms nf by auto
  then show ?thesis using try_body_connects [of s p self env st] b by simp
qed

lemma attempt_tries_broker_path:
  assumes "broker_socket_raises env = None" "client_socket_raises env = None"
    "client_connect_raises env = None" "client_wait env = WaitReturns ready"
  shows "Connect (next_socket st) (''/tmp/mqtt_msg_'' @ str_int (self_n_socket self) @ ''.sock'')
           \<in> set (snd (snd (attempt self env st)))"
proof -
  let ?p = "Connect (next_socket st) (''/tmp/mqtt_msg_'' @ str_int (self_n_socket self) @ ''.sock'')"
  obtain e st' tr where b: "try_body self env st = (e, st', tr)"
    by (cases "try_body self env st") auto
  have "?p \<in> set (snd (snd (try_body self env st)))"
    using assms
    by (auto simp: try_body_def connect_to_client_socket_and_wait_for_data_def Let_def
        split: option.splits local_var.splits relay_end.splits prod.splits)
  then have t: "?p \<in> set tr" using b by simp
  obtain x st'' tr' where f: "finally_block st' = (x, st'', tr')"
    by (cases "finally_block st'") auto
  have "snd (snd (attempt self env st)) = tr \<or> snd (snd (attempt self env st)) = tr @ tr'"
    using b f by (cases e; cases x) (simp_all add: attempt_def)
  then show ?thesis using t by auto
qed

text \<open>
  Claim C6. The only paths a pass of the worker connects to are the client socket path,
  on the client socket, and \<^verbatim>\<open>/tmp/mqtt_msg_<n_socket>.sock\<close>, on the broker socket. The
  connection to that path is attempted as soon as the wait for the client has returned,
  whether or not it will succeed: nothing is checked before. The attribute
  \<^verbatim>\<open>broker_socket_path\<close>, the configured broker directory, has no influence on a pass, nor
  on a worker started by \<^verbatim>\<open>create_msg_tunnel\<close>.
\<close>

theorem broker_path_is_template_of_slot:
  "(Connect s p \<in> set (snd (snd (attempt self env st)))
      \<longrightarrow> s = next_socket st + 1 \<and> p = client_socket_path self
        \<or> s = next_socket st
          \<and> p = ''/tmp/mqtt_msg_'' @ str_int (self_n_socket self) @ ''.sock'')
   \<and> (broker_socket_raises env = None \<and> client_socket_raises env = None
        \<and> client_connect_raises env = None \<and> client_wait env = WaitReturns ready
      \<longrightarrow> Connect (next_socket st)
            (''/tmp/mqtt_msg_'' @ str_int (self_n_socket self) @ ''.sock'')
          \<in> set (snd (snd (attempt self env st))))
   \<and> attempt (self\<lparr>broker_socket_path := d\<rparr>) env st = attempt self env st
   \<and> create_msg_tunnel d client_socket n envs = create_msg_tunnel d' client_socket n envs"
proof -
  have "create_msg_tunnel d client_socket n envs = create_msg_tunnel d' client_socket n envs"
    using tunnel_loop_ignores_broker_socket_path
      [where self = "\<lparr>client_socket_path = client_socket, broker_socket_path = d',
          self_n_socket = n\<rparr>" and d = d and envs = envs and st = tunnel_init]
    by (simp add: create_msg_tunnel_def tunnel_def)
  then show ?thesis
    using attempt_connects [where s = s and p = p and self = self and env = env and st = st]
      attempt_tries_broker_path [where env = env and ready = ready and st = st and self = self]
      attempt_ignores_broker_socket_path [where self = self and d = d and env = env and st = st]
    by blast
qed

text \<open>
  Claim C6 at slot 3, with a broker socket that does not accept the connection.
\<close>

theorem broker_path_is_template_of_slot_witness:
  "broker_socket_raises (ready_attempt\<lparr>broker_connect_raises := Some OSError\<rparr>) = None
   \<and> client_socket_raises (ready_attempt\<lparr>broker_connect_raises := Some OSError\<rparr>) = None
   \<and> client_connect_raises (ready_attempt\<lparr>broker_connect_raises := Some OSError\<rparr>) = None
   \<and> client_wait (ready_attempt\<lparr>broker_connect_raises := Some OSError\<rparr>) = WaitReturns True
   \<and> Connect 0 ''/tmp/mqtt_msg_3.sock''
       \<in> set (snd (snd (attempt example_tunneler
                          (ready_attempt\<lparr>broker_connect_raises := Some OSError\<rparr>) tunnel_init)))"
proof -
  let ?env = "ready_attempt\<lparr>broker_connect_raises := Some OSError\<rparr>"
  have pre: "broker_socket_raises ?env = None \<and> client_socket_raises ?env = None
        \<and> client_connect_raises ?env = None \<and> client_wait ?env = WaitReturns True"
    by (simp add: ready_attempt_def)
  have "Connect (next_socket tunnel_init)
            (''/tmp/mqtt_msg_'' @ str_int (self_n_socket example_tunneler) @ ''.sock'')
          \<in> set (snd (snd (attempt example_tunneler ?env tunnel_init)))"
    using broker_path_is_template_of_slot
      [where env = ?env and ready = True and st = tunnel_init and self = example_tunneler] pre
    by blast
  moreover have "next_socket tunnel_init = 0"
    by (simp add: tunnel_init_def)
  moreover have "''/tmp/mqtt_msg_'' @ str_int (self_n_socket example_tunneler) @ ''.sock''
      = ''/tmp/mqtt_msg_3.sock''"
    by (simp add: example_tunneler_def str_int_def str_nat.simps digit_char_def)
  ultimately show ?thesis using pre by simp
qed














text \<open>
  Claim C10. When \<^verbatim>\<open>mqtt_client\<close> is not \<^verbatim>\<open>None\<close>, \<^verbatim>\<open>stop\<close> leaves \<^verbatim>\<open>connected\<close> and \<^verbatim>\<open>is_starting\<close>
  false, whatever \<^verbatim>\<open>disconnect\<close>, \<^verbatim>\<open>loop_stop\<close> and \<^verbatim>\<open>close\<close> do and whether or not they raise;
  when it is \<^verbatim>\<open>None\<close>, \<^verbatim>\<open>stop\<close> changes nothing.
\<close>

theorem stop_always_resets_flags:
  "(mqtt_client (instances w self) \<noteq> None
      \<longrightarrow> connected (stop cm self w) self = False \<and> is_starting (stop cm self w) self = False)
   \<and> (mqtt_client (instances w self) = None \<longrightarrow> stop cm self w = w)"
  by (simp add: stop_def connected_def is_starting_def Let_def)

text \<open>
  Claim C10 at a connected instance whose \<^verbatim>\<open>disconnect\<close> raises, and at an instance that was
  never started.
\<close>

theorem stop_always_resets_flags_witness:
  "mqtt_client (instances example_store 0) \<noteq> None
   \<and> connected example_store 0
   \<and> fst (disconnect failing_client 7 example_store) = Some OSError
   \<and> connected (stop failing_client 0 example_store) 0 = False
   \<and> is_starting (stop failing_client 0 example_store) 0 = False
   \<and> mqtt_client (instances example_store 1) = None
   \<and> stop failing_client 1 example_store = example_store"
proof -
  have h0: "mqtt_client (instances example_store 0) \<noteq> None"
    and h1: "mqtt_client (instances example_store 1) = None"
    and c: "connected example_store 0"
    and d: "fst (disconnect failing_client 7 example_store) = Some OSError"
    by (simp_all add: example_store_def connected_def failing_client_def)
  show ?thesis
    using h0 h1 c d
      stop_always_resets_flags [of example_store 0 failing_client]
      stop_always_resets_flags [of example_store 1 failing_client]
    by blast
qed

end
